theory Spec2Isabelle
  imports Main
begin

section \<open>The user profile model of profiles_api/models.py\<close>

text \<open>
  The module defines a manager with two factory methods (\<open>create_user\<close>,
  \<open>create_superuser\<close>) and the model class \<open>UserProfile\<close> with three
  accessors. Python exceptions are values of the type \<open>error\<close>; a call that
  may raise returns \<open>error + 'a\<close> together with the database it leaves behind.
  Strings are HOL strings; an argument that may be \<open>None\<close> is an option.
\<close>

subsection \<open>Exceptions\<close>

text \<open>
  \<open>ValueError\<close> is raised by the manager itself (line 28). \<open>IntegrityError\<close> and
  \<open>OperationalError\<close> are what the persistence layer raises on a violated
  uniqueness constraint and on unreachable storage. \<open>ValidationError\<close> is the
  framework's separate validation exception class; no line of the module raises it.
\<close>

datatype error =
    ValueError string
  | ValidationError string
  | IntegrityError
  | OperationalError

subsection \<open>The record\<close>

text \<open>
  The fields declared in the class (\<open>email\<close>, \<open>name\<close>, \<open>is_active\<close>,
  \<open>is_staff\<close>) together with those the two base classes contribute and the module
  touches: the primary key, the credential and \<open>is_superuser\<close>.
  The credential is \<open>None\<close> when the record has no usable password and
  \<open>Some h\<close> when it holds the encoded hash \<open>h\<close>.
\<close>

record UserProfile =
  pk :: "nat option"
  password :: "string option"
  email :: string
  name :: string
  is_active :: bool
  is_staff :: bool
  is_superuser :: bool

text \<open>
  \<open>self.model(email=email, name=name)\<close>: a fresh, unsaved instance. The remaining
  fields take the defaults of their declarations: \<open>is_active\<close> is true (line 69),
  \<open>is_staff\<close> is false (line 70), \<open>is_superuser\<close> is false, no primary key and
  no credential yet.
\<close>

definition model :: "string \<Rightarrow> string \<Rightarrow> UserProfile" where
  "model e n =
     \<lparr>pk = None, password = None, email = e, name = n,
      is_active = True, is_staff = False, is_superuser = False\<rparr>"

subsection \<open>Email normalisation\<close>

text \<open>
  Python's \<open>str.lower\<close> on the ASCII letters; every other character is kept.
  The characters of the model are bytes, so letters outside ASCII are not
  case-folded here.
\<close>

definition lower_char :: "char \<Rightarrow> char" where
  "lower_char c =
     (let k = (of_char c :: nat)
      in if 65 \<le> k \<and> k \<le> 90 then char_of (k + 32) else c)"

definition lower :: "string \<Rightarrow> string" where
  "lower s = map lower_char s"

text \<open>
  \<open>s.rsplit('@', 1)\<close>: the split at the last \<open>@\<close>, or \<open>None\<close> when the string
  has none.
\<close>

definition rsplit_at :: "string \<Rightarrow> (string \<times> string) option" where
  "rsplit_at s =
     (if CHR ''@'' \<in> set s
      then Some (rev (tl (dropWhile (\<lambda>c. c \<noteq> CHR ''@'') (rev s))),
                 rev (takeWhile (\<lambda>c. c \<noteq> CHR ''@'') (rev s)))
      else None)"

text \<open>
  Modelled from the spec: \<open>normalize_email\<close> is a method of the framework's base
  manager class and is not part of src/. The spec says it normalizes the email's
  domain portion to a canonical form, case-folding the domain segment per the
  standard email-normalization convention: the segment after the last \<open>@\<close> is
  lower-cased and the rest is kept; an address without \<open>@\<close> has no domain segment
  and is returned as it is.
\<close>

definition normalize_email :: "string \<Rightarrow> string" where
  "normalize_email e =
     (case rsplit_at e of
        None \<Rightarrow> e
      | Some (email_name, domain_part) \<Rightarrow> email_name @ ''@'' @ lower domain_part)"

subsection \<open>Credentials\<close>

text \<open>
  Modelled from the spec: \<open>set_password\<close> and \<open>check_password\<close> are methods of the
  framework's base user class and are not part of src/. The spec says the stored
  credential is derived from the plaintext by a one-way, salted hashing function,
  and that with an absent password the record is left without a usable credential
  and cannot authenticate by password. The hashing function \<open>H\<close> and the
  verification function \<open>V\<close> are parameters: nothing is assumed about them.
\<close>

definition set_password :: "(string \<Rightarrow> string) \<Rightarrow> string option \<Rightarrow> UserProfile \<Rightarrow> UserProfile" where
  "set_password H raw user = user\<lparr>password := map_option H raw\<rparr>"

definition has_usable_password :: "UserProfile \<Rightarrow> bool" where
  "has_usable_password user = (password user \<noteq> None)"

definition check_password :: "(string \<Rightarrow> string \<Rightarrow> bool) \<Rightarrow> string \<Rightarrow> UserProfile \<Rightarrow> bool" where
  "check_password V raw user =
     (case password user of None \<Rightarrow> False | Some h \<Rightarrow> V raw h)"

text \<open>
  A stand-in for the hashing primitive, used only to run the model on concrete
  inputs. Every general theorem below is stated for an arbitrary \<open>H\<close>.
\<close>

definition sample_hasher :: "string \<Rightarrow> string" where
  "sample_hasher raw = ''sample$'' @ rev raw"

subsection \<open>The persistence layer\<close>

text \<open>
  The table of saved records, the next primary key to hand out, and the
  reachability of the storage at each coming write attempt (the head is the next
  attempt; an exhausted list means reachable).
\<close>

record db =
  rows :: "UserProfile list"
  next_pk :: nat
  availability :: "bool list"

definition storage_up :: "db \<Rightarrow> bool" where
  "storage_up d = (case availability d of [] \<Rightarrow> True | b # _ \<Rightarrow> b)"

text \<open>
  Modelled from the spec: \<open>save\<close> is inherited from the framework's model base
  class and is not part of src/. The spec says the persistence layer provides an
  atomic save of a record and uniqueness enforcement on \<open>email\<close> (declared
  \<open>unique=True\<close> on line 67), and that duplicate email and storage unavailability
  are its failures, propagated unchanged. A record without primary key is
  inserted and receives one; a record with a primary key replaces the row that
  has this key. A failed save writes nothing.
\<close>

definition save :: "UserProfile \<Rightarrow> db \<Rightarrow> (error + UserProfile) \<times> db" where
  "save user d =
     (let d1 = d\<lparr>availability := drop 1 (availability d)\<rparr>
      in if \<not> storage_up d then (Inl OperationalError, d1)
         else case pk user of
           None \<Rightarrow>
             if list_ex (\<lambda>r. email r = email user) (rows d)
             then (Inl IntegrityError, d1)
             else let user' = user\<lparr>pk := Some (next_pk d)\<rparr>
                  in (Inr user', d1\<lparr>rows := rows d @ [user'], next_pk := Suc (next_pk d)\<rparr>)
         | Some k \<Rightarrow>
             if list_ex (\<lambda>r. pk r \<noteq> Some k \<and> email r = email user) (rows d)
             then (Inl IntegrityError, d1)
             else if list_ex (\<lambda>r. pk r = Some k) (rows d)
             then (Inr user, d1\<lparr>rows := map (\<lambda>r. if pk r = Some k then user else r) (rows d)\<rparr>)
             else (Inr user, d1\<lparr>rows := rows d @ [user]\<rparr>))"

subsection \<open>The manager\<close>

text \<open>
  \<open>create_user\<close> (lines 27-36). The arguments \<open>addr\<close>, \<open>nm\<close> and \<open>pw\<close> are the
  source's \<open>email\<close>, \<open>name\<close> and \<open>password\<close>; \<open>H\<close> is the hashing primitive
  behind \<open>set_password\<close> and \<open>d\<close> the database the manager writes to.
  \<open>not email\<close> holds for \<open>None\<close> and for the empty string; the raise on line 28
  happens before anything else.
\<close>

definition create_user ::
  "(string \<Rightarrow> string) \<Rightarrow> string option \<Rightarrow> string \<Rightarrow> string option \<Rightarrow> db
     \<Rightarrow> (error + UserProfile) \<times> db" where
  "create_user H addr nm pw d =
     (case addr of
        None \<Rightarrow> (Inl (ValueError ''Users must have an email address''), d)
      | Some e \<Rightarrow>
          if e = [] then (Inl (ValueError ''Users must have an email address''), d)
          else let e' = normalize_email e;
                   user = model e' nm;
                   user = set_password H pw user
               in save user d)"

text \<open>
  \<open>create_superuser\<close> (lines 50-56): an exception of \<open>create_user\<close> propagates;
  otherwise the two flags are set on the returned instance and it is saved again.
\<close>

definition create_superuser ::
  "(string \<Rightarrow> string) \<Rightarrow> string option \<Rightarrow> string \<Rightarrow> string option \<Rightarrow> db
     \<Rightarrow> (error + UserProfile) \<times> db" where
  "create_superuser H addr nm pw d =
     (case create_user H addr nm pw d of
        (Inl err, d1) \<Rightarrow> (Inl err, d1)
      | (Inr user, d1) \<Rightarrow> save (user\<lparr>is_superuser := True, is_staff := True\<rparr>) d1)"

subsection \<open>The accessors\<close>

text \<open>
  A method receives the instance and may assign to its attributes, so each
  accessor returns its value together with the instance as the call leaves it.
\<close>

definition get_full_name :: "UserProfile \<Rightarrow> string \<times> UserProfile" where
  "get_full_name self = (name self, self)"

definition get_short_name :: "UserProfile \<Rightarrow> string \<times> UserProfile" where
  "get_short_name self = (name self, self)"

definition str_UserProfile :: "UserProfile \<Rightarrow> string \<times> UserProfile" where
  "str_UserProfile self = (email self, self)"

section \<open>Auxiliary facts\<close>

lemma list_ex_email: "list_ex (\<lambda>r. email r = e) rs \<longleftrightarrow> e \<in> email ` set rs"
  by (auto simp: list_ex_iff)

lemma save_Inl:
  assumes "save user d = (Inl err, d')"
  shows "rows d' = rows d \<and> next_pk d' = next_pk d \<and> (err = IntegrityError \<or> err = OperationalError)"
  using assms by (auto simp: save_def Let_def split: if_splits option.splits)

lemma save_insert_Inr:
  assumes "pk user = None" and "save user d = (Inr u, d')"
  shows "u = user\<lparr>pk := Some (next_pk d)\<rparr> \<and> rows d' = rows d @ [u] \<and>
         next_pk d' = Suc (next_pk d) \<and> availability d' = drop 1 (availability d) \<and>
         storage_up d \<and> email user \<notin> email ` set (rows d)"
  using assms by (auto simp: save_def Let_def list_ex_email split: if_splits)

lemma save_insert_ok:
  assumes "pk user = None" and "storage_up d" and "email user \<notin> email ` set (rows d)"
  shows "save user d =
           (Inr (user\<lparr>pk := Some (next_pk d)\<rparr>),
            d\<lparr>availability := drop 1 (availability d),
              rows := rows d @ [user\<lparr>pk := Some (next_pk d)\<rparr>],
              next_pk := Suc (next_pk d)\<rparr>)"
  using assms by (simp add: save_def Let_def list_ex_email)

lemma save_update_Inr:
  assumes "pk user = Some k" and "save user d = (Inr u, d')"
  shows "u = user \<and> next_pk d' = next_pk d \<and> user \<in> set (rows d') \<and>
         (\<forall>r \<in> set (rows d'). pk r = Some k \<longrightarrow> r = user)"
  using assms by (auto simp: save_def Let_def list_ex_iff split: if_splits)


lemma create_user_Inr:
  assumes "create_user H addr nm pw d = (Inr u, d')"
  shows "\<exists>e. addr = Some e \<and> e \<noteq> [] \<and>
           u = \<lparr>pk = Some (next_pk d), password = map_option H pw,
                email = normalize_email e, name = nm,
                is_active = True, is_staff = False, is_superuser = False\<rparr> \<and>
           rows d' = rows d @ [u] \<and> next_pk d' = Suc (next_pk d) \<and>
           availability d' = drop 1 (availability d) \<and>
           storage_up d \<and> normalize_email e \<notin> email ` set (rows d)"
proof (cases addr)
  case None
  with assms show ?thesis by (simp add: create_user_def)
next
  case (Some e)
  show ?thesis
  proof (cases "e = []")
    case True
    with Some assms show ?thesis by (simp add: create_user_def)
  next
    case False
    let ?user = "set_password H pw (model (normalize_email e) nm)"
    from Some False assms have sv: "save ?user d = (Inr u, d')"
      by (simp add: create_user_def Let_def)
    have "pk ?user = None" by (simp add: set_password_def model_def)
    from save_insert_Inr [OF this sv] Some False show ?thesis
      by (simp add: set_password_def model_def)
  qed
qed

lemma create_user_Inl:
  assumes "create_user H addr nm pw d = (Inl err, d')"
  shows "rows d' = rows d \<and> next_pk d' = next_pk d \<and>
         ((addr = None \<or> addr = Some []) \<and>
            err = ValueError ''Users must have an email address'' \<and> d' = d
          \<or> (\<exists>e. addr = Some e \<and> e \<noteq> []) \<and>
            (err = IntegrityError \<or> err = OperationalError))"
proof (cases addr)
  case None
  with assms show ?thesis by (auto simp: create_user_def)
next
  case (Some e)
  show ?thesis
  proof (cases "e = []")
    case True
    with Some assms show ?thesis by (auto simp: create_user_def)
  next
    case False
    with Some assms
    have "save (set_password H pw (model (normalize_email e) nm)) d = (Inl err, d')"
      by (simp add: create_user_def Let_def)
    from save_Inl [OF this] Some False show ?thesis by simp
  qed
qed

lemma create_user_ok:
  assumes "e \<noteq> []" and "storage_up d" and "normalize_email e \<notin> email ` set (rows d)"
  shows "create_user H (Some e) nm pw d =
           (Inr \<lparr>pk = Some (next_pk d), password = map_option H pw,
                 email = normalize_email e, name = nm,
                 is_active = True, is_staff = False, is_superuser = False\<rparr>,
            d\<lparr>availability := drop 1 (availability d),
              rows := rows d @
                [\<lparr>pk = Some (next_pk d), password = map_option H pw,
                  email = normalize_email e, name = nm,
                  is_active = True, is_staff = False, is_superuser = False\<rparr>],
              next_pk := Suc (next_pk d)\<rparr>)"
proof -
  let ?user = "set_password H pw (model (normalize_email e) nm)"
  have "pk ?user = None" and "email ?user = normalize_email e"
    by (simp_all add: set_password_def model_def)
  with assms have "save ?user d =
           (Inr (?user\<lparr>pk := Some (next_pk d)\<rparr>),
            d\<lparr>availability := drop 1 (availability d),
              rows := rows d @ [?user\<lparr>pk := Some (next_pk d)\<rparr>],
              next_pk := Suc (next_pk d)\<rparr>)"
    by (intro save_insert_ok) simp_all
  with assms(1) show ?thesis
    by (simp add: create_user_def Let_def set_password_def model_def)
qed

text \<open>
  The credential of a returned record is what \<open>set_password\<close> derives from the
  password argument; the plaintext itself is stored nowhere.
\<close>

lemma create_user_credential:
  assumes "create_user H addr nm pw d = (Inr u, d')"
  shows "password u = map_option H pw"
  using create_user_Inr [OF assms] by auto

lemma rsplit_at_none: "CHR ''@'' \<notin> set s \<Longrightarrow> rsplit_at s = None"
  by (simp add: rsplit_at_def)

lemma rsplit_at_last:
  assumes "CHR ''@'' \<notin> set dmn"
  shows "rsplit_at (loc @ CHR ''@'' # dmn) = Some (loc, dmn)"
proof -
  let ?P = "\<lambda>c. c \<noteq> CHR ''@''"
  have "takeWhile ?P (rev dmn @ (CHR ''@'' # rev loc)) = rev dmn @ takeWhile ?P (CHR ''@'' # rev loc)"
    by (rule takeWhile_append2) (use assms in auto)
  moreover
  have "dropWhile ?P (rev dmn @ (CHR ''@'' # rev loc)) = dropWhile ?P (CHR ''@'' # rev loc)"
    by (rule dropWhile_append2) (use assms in auto)
  ultimately show ?thesis by (simp add: rsplit_at_def)
qed

lemma normalize_email_no_at: "CHR ''@'' \<notin> set e \<Longrightarrow> normalize_email e = e"
  by (simp add: normalize_email_def rsplit_at_none)

lemma normalize_email_split:
  "CHR ''@'' \<notin> set dmn \<Longrightarrow> normalize_email (loc @ ''@'' @ dmn) = loc @ ''@'' @ lower dmn"
  by (simp add: normalize_email_def rsplit_at_last)

lemma lower_char_not_upper:
  "\<not> (65 \<le> (of_char (lower_char c) :: nat) \<and> (of_char (lower_char c) :: nat) \<le> 90)"
  by (auto simp: lower_char_def Let_def)

section \<open>Properties\<close>

text \<open>
  C1 (as the code has it). A call of \<open>create_user\<close> or of \<open>create_superuser\<close>
  with an absent or empty email fails with \<open>ValueError\<close> and the message
  \<open>Users must have an email address\<close>, and leaves the database exactly as it was:
  no record is constructed or saved.
\<close>

theorem empty_email_rejected:
  assumes "addr = None \<or> addr = Some []"
  shows "create_user H addr nm pw d =
           (Inl (ValueError ''Users must have an email address''), d) \<and>
         create_superuser H addr nm pw d =
           (Inl (ValueError ''Users must have an email address''), d)"
  using assms by (auto simp: create_superuser_def create_user_def)

text \<open>The rejection at the empty address, on an empty database.\<close>

theorem empty_email_rejected_witness:
  "(Some [] = (None :: string option) \<or> Some [] = Some ([] :: string)) \<and>
   create_user sample_hasher (Some []) ''Ann'' (Some ''secret'')
       \<lparr>rows = [], next_pk = 1, availability = []\<rparr> =
     (Inl (ValueError ''Users must have an email address''),
      \<lparr>rows = [], next_pk = 1, availability = []\<rparr>) \<and>
   create_superuser sample_hasher (Some []) ''Ann'' (Some ''secret'')
       \<lparr>rows = [], next_pk = 1, availability = []\<rparr> =
     (Inl (ValueError ''Users must have an email address''),
      \<lparr>rows = [], next_pk = 1, availability = []\<rparr>)"
proof -
  have h: "Some [] = (None :: string option) \<or> Some [] = Some ([] :: string)" by simp
  show ?thesis by (rule conjI [OF h empty_email_rejected [OF h]])
qed

text \<open>
  C1 as stated names the exception \<open>ValidationError\<close> with the message
  \<open>email required\<close>; the call with the empty address raises another exception.
\<close>

theorem empty_email_not_validation_error:
  "fst (create_user sample_hasher (Some []) ''Ann'' (Some ''secret'')
          \<lparr>rows = [], next_pk = 1, availability = []\<rparr>) =
     Inl (ValueError ''Users must have an email address'') \<and>
   fst (create_user sample_hasher (Some []) ''Ann'' (Some ''secret'')
          \<lparr>rows = [], next_pk = 1, availability = []\<rparr>) \<noteq>
     Inl (ValidationError ''email required'')"
  by (simp add: create_user_def)

text \<open>
  C2. For a non-empty email and any name and password, every record that
  \<open>create_user\<close> returns has the normalized email, the given name,
  \<open>is_active\<close> true, \<open>is_staff\<close> false and \<open>is_superuser\<close> false; the only
  failures are those of the persistence layer; and when the storage is reachable
  and holds no row with the normalized email, a record is returned.
\<close>

theorem create_user_fields:
  assumes "e \<noteq> []"
  shows "(\<forall>u d'. create_user H (Some e) n (Some p) d = (Inr u, d') \<longrightarrow>
            email u = normalize_email e \<and> name u = n \<and>
            is_active u \<and> \<not> is_staff u \<and> \<not> is_superuser u) \<and>
         (\<forall>err d'. create_user H (Some e) n (Some p) d = (Inl err, d') \<longrightarrow>
            err = IntegrityError \<or> err = OperationalError) \<and>
         (storage_up d \<and> normalize_email e \<notin> email ` set (rows d) \<longrightarrow>
            (\<exists>u d'. create_user H (Some e) n (Some p) d = (Inr u, d')))"
proof -
  have A: "email u = normalize_email e \<and> name u = n \<and>
        is_active u \<and> \<not> is_staff u \<and> \<not> is_superuser u"
    if "create_user H (Some e) n (Some p) d = (Inr u, d')" for u d'
    using create_user_Inr [OF that] by auto
  have B: "err = IntegrityError \<or> err = OperationalError"
    if "create_user H (Some e) n (Some p) d = (Inl err, d')" for err d'
    using create_user_Inl [OF that] assms by auto
  have C: "\<exists>u d'. create_user H (Some e) n (Some p) d = (Inr u, d')"
    if "storage_up d \<and> normalize_email e \<notin> email ` set (rows d)"
    using that assms create_user_ok [of e d H n "Some p"] by blast
  from A B C show ?thesis by blast
qed

text \<open>
  Runs on an empty database and, for the failure, on a database that already
  holds the address.
\<close>

theorem create_user_fields_witness:
  "(''Bob@EXAMPLE.Com'' \<noteq> []) \<and>
   (create_user sample_hasher (Some ''Bob@EXAMPLE.Com'') ''Bob'' (Some ''secret'')
       \<lparr>rows = [], next_pk = 1, availability = []\<rparr> =
     (Inr \<lparr>pk = Some 1, password = Some ''sample$terces'', email = ''Bob@example.com'', name = ''Bob'',
        is_active = True, is_staff = False, is_superuser = False\<rparr>,
      \<lparr>rows = [\<lparr>pk = Some 1, password = Some ''sample$terces'', email = ''Bob@example.com'', name = ''Bob'',
        is_active = True, is_staff = False, is_superuser = False\<rparr>], next_pk = 2, availability = []\<rparr>)) \<and>
   (email \<lparr>pk = Some 1, password = Some ''sample$terces'', email = ''Bob@example.com'', name = ''Bob'',
        is_active = True, is_staff = False, is_superuser = False\<rparr> =
      normalize_email ''Bob@EXAMPLE.Com'' \<and>
    name \<lparr>pk = Some 1, password = Some ''sample$terces'', email = ''Bob@example.com'', name = ''Bob'',
        is_active = True, is_staff = False, is_superuser = False\<rparr> = ''Bob'' \<and>
    is_active \<lparr>pk = Some 1, password = Some ''sample$terces'', email = ''Bob@example.com'', name = ''Bob'',
        is_active = True, is_staff = False, is_superuser = False\<rparr> \<and>
    \<not> is_staff \<lparr>pk = Some 1, password = Some ''sample$terces'', email = ''Bob@example.com'', name = ''Bob'',
        is_active = True, is_staff = False, is_superuser = False\<rparr> \<and>
    \<not> is_superuser \<lparr>pk = Some 1, password = Some ''sample$terces'', email = ''Bob@example.com'', name = ''Bob'',
        is_active = True, is_staff = False, is_superuser = False\<rparr>) \<and>
   (create_user sample_hasher (Some ''Bob@EXAMPLE.Com'') ''Bob'' (Some ''secret'')
       \<lparr>rows = [\<lparr>pk = Some 1, password = Some ''sample$terces'', email = ''Bob@example.com'', name = ''Bob'',
        is_active = True, is_staff = False, is_superuser = False\<rparr>], next_pk = 2, availability = []\<rparr> =
     (Inl IntegrityError,
      \<lparr>rows = [\<lparr>pk = Some 1, password = Some ''sample$terces'', email = ''Bob@example.com'', name = ''Bob'',
        is_active = True, is_staff = False, is_superuser = False\<rparr>], next_pk = 2, availability = []\<rparr>)) \<and>
   (IntegrityError = IntegrityError \<or> IntegrityError = OperationalError) \<and>
   (storage_up \<lparr>rows = [], next_pk = 1, availability = []\<rparr> \<and>
    normalize_email ''Bob@EXAMPLE.Com'' \<notin> email ` set (rows \<lparr>rows = [], next_pk = 1, availability = []\<rparr>)) \<and>
   (\<exists>u d'. create_user sample_hasher (Some ''Bob@EXAMPLE.Com'') ''Bob'' (Some ''secret'')
       \<lparr>rows = [], next_pk = 1, availability = []\<rparr> = (Inr u, d'))"
proof -
  have h: "''Bob@EXAMPLE.Com'' \<noteq> []"
    by simp
  have run: "create_user sample_hasher (Some ''Bob@EXAMPLE.Com'') ''Bob'' (Some ''secret'')
       \<lparr>rows = [], next_pk = 1, availability = []\<rparr> =
     (Inr \<lparr>pk = Some 1, password = Some ''sample$terces'', email = ''Bob@example.com'', name = ''Bob'',
        is_active = True, is_staff = False, is_superuser = False\<rparr>,
      \<lparr>rows = [\<lparr>pk = Some 1, password = Some ''sample$terces'', email = ''Bob@example.com'', name = ''Bob'',
        is_active = True, is_staff = False, is_superuser = False\<rparr>], next_pk = 2, availability = []\<rparr>)"
    by code_simp
  have fields: "email \<lparr>pk = Some 1, password = Some ''sample$terces'', email = ''Bob@example.com'', name = ''Bob'',
        is_active = True, is_staff = False, is_superuser = False\<rparr> =
      normalize_email ''Bob@EXAMPLE.Com'' \<and>
    name \<lparr>pk = Some 1, password = Some ''sample$terces'', email = ''Bob@example.com'', name = ''Bob'',
        is_active = True, is_staff = False, is_superuser = False\<rparr> = ''Bob'' \<and>
    is_active \<lparr>pk = Some 1, password = Some ''sample$terces'', email = ''Bob@example.com'', name = ''Bob'',
        is_active = True, is_staff = False, is_superuser = False\<rparr> \<and>
    \<not> is_staff \<lparr>pk = Some 1, password = Some ''sample$terces'', email = ''Bob@example.com'', name = ''Bob'',
        is_active = True, is_staff = False, is_superuser = False\<rparr> \<and>
    \<not> is_superuser \<lparr>pk = Some 1, password = Some ''sample$terces'', email = ''Bob@example.com'', name = ''Bob'',
        is_active = True, is_staff = False, is_superuser = False\<rparr>"
    by (rule create_user_fields [OF h, THEN conjunct1, rule_format, OF run])
  have run2: "create_user sample_hasher (Some ''Bob@EXAMPLE.Com'') ''Bob'' (Some ''secret'')
       \<lparr>rows = [\<lparr>pk = Some 1, password = Some ''sample$terces'', email = ''Bob@example.com'', name = ''Bob'',
        is_active = True, is_staff = False, is_superuser = False\<rparr>], next_pk = 2, availability = []\<rparr> =
     (Inl IntegrityError,
      \<lparr>rows = [\<lparr>pk = Some 1, password = Some ''sample$terces'', email = ''Bob@example.com'', name = ''Bob'',
        is_active = True, is_staff = False, is_superuser = False\<rparr>], next_pk = 2, availability = []\<rparr>)"
    by code_simp
  have errs: "IntegrityError = IntegrityError \<or> IntegrityError = OperationalError"
    by (rule create_user_fields [OF h, THEN conjunct2, THEN conjunct1, rule_format, OF run2])
  have cond: "storage_up \<lparr>rows = [], next_pk = 1, availability = []\<rparr> \<and>
    normalize_email ''Bob@EXAMPLE.Com'' \<notin> email ` set (rows \<lparr>rows = [], next_pk = 1, availability = []\<rparr>)"
    by (simp add: storage_up_def)
  have ex: "\<exists>u d'. create_user sample_hasher (Some ''Bob@EXAMPLE.Com'') ''Bob'' (Some ''secret'')
       \<lparr>rows = [], next_pk = 1, availability = []\<rparr> = (Inr u, d')"
    by (rule create_user_fields [OF h, THEN conjunct2, THEN conjunct2, rule_format, OF cond])
  show ?thesis
    by (rule conjI [OF h conjI [OF run conjI [OF fields conjI [OF run2 conjI [OF errs conjI [OF cond ex]]]]]])
qed

text \<open>
  C3. Every record that \<open>create_superuser\<close> returns has \<open>is_staff\<close> and
  \<open>is_superuser\<close> set, and it is the saved row; it is the record returned by
  \<open>create_user\<close> on the same arguments with the two flags set and saved again,
  and the row without the flags is no longer in the table. A record is returned
  whenever the address is non-empty and new and the storage is reachable for the
  two writes.
\<close>

theorem create_superuser_flags:
  "(\<forall>u d'. create_superuser H addr nm pw d = (Inr u, d') \<longrightarrow>
      is_staff u \<and> is_superuser u \<and> u \<in> set (rows d') \<and>
      (\<exists>u0 d1. create_user H addr nm pw d = (Inr u0, d1) \<and>
         u = u0\<lparr>is_superuser := True, is_staff := True\<rparr> \<and>
         save (u0\<lparr>is_superuser := True, is_staff := True\<rparr>) d1 = (Inr u, d') \<and>
         u0 \<notin> set (rows d'))) \<and>
   (\<forall>e. addr = Some e \<and> e \<noteq> [] \<and> normalize_email e \<notin> email ` set (rows d) \<and>
        list_all (\<lambda>b. b) (take 2 (availability d)) \<longrightarrow>
      (\<exists>u d'. create_superuser H addr nm pw d = (Inr u, d')))"
proof -
  have A: "is_staff u \<and> is_superuser u \<and> u \<in> set (rows d') \<and>
      (\<exists>u0 d1. create_user H addr nm pw d = (Inr u0, d1) \<and>
         u = u0\<lparr>is_superuser := True, is_staff := True\<rparr> \<and>
         save (u0\<lparr>is_superuser := True, is_staff := True\<rparr>) d1 = (Inr u, d') \<and>
         u0 \<notin> set (rows d'))"
    if run: "create_superuser H addr nm pw d = (Inr u, d')" for u d'
  proof -
    obtain r0 d1 where cu: "create_user H addr nm pw d = (r0, d1)"
      by (cases "create_user H addr nm pw d")
    with run obtain u0 where r0: "r0 = Inr u0"
      by (cases r0) (auto simp: create_superuser_def)
    let ?u1 = "u0\<lparr>is_superuser := True, is_staff := True\<rparr>"
    from run cu r0 have sv: "save ?u1 d1 = (Inr u, d')"
      by (simp add: create_superuser_def)
    from create_user_Inr [OF cu [unfolded r0]]
    have k: "pk ?u1 = Some (next_pk d)" and ns: "\<not> is_staff u0" by auto
    from save_update_Inr [OF k sv]
    have u: "u = ?u1" and mem: "?u1 \<in> set (rows d')"
      and only: "\<forall>r \<in> set (rows d'). pk r = Some (next_pk d) \<longrightarrow> r = ?u1"
      by auto
    have "u0 \<notin> set (rows d')"
    proof
      assume "u0 \<in> set (rows d')"
      moreover have "pk u0 = Some (next_pk d)" using k by simp
      ultimately have "u0 = ?u1" using only by blast
      then have "is_staff u0 = is_staff ?u1" by simp
      with ns show False by simp
    qed
    with cu r0 sv u mem show ?thesis by auto
  qed
  have B: "\<exists>u d'. create_superuser H addr nm pw d = (Inr u, d')"
    if h: "addr = Some e \<and> e \<noteq> [] \<and> normalize_email e \<notin> email ` set (rows d) \<and>
        list_all (\<lambda>b. b) (take 2 (availability d))" for e
  proof -
    have up1: "storage_up d" using h
      by (cases "availability d") (auto simp: storage_up_def)
    have up2: "storage_up (d\<lparr>availability := drop 1 (availability d)\<rparr>)" using h
      by (cases "availability d"; cases "tl (availability d)") (auto simp: storage_up_def)
    from h up1 have cu: "create_user H addr nm pw d =
           (Inr \<lparr>pk = Some (next_pk d), password = map_option H pw,
                 email = normalize_email e, name = nm,
                 is_active = True, is_staff = False, is_superuser = False\<rparr>,
            d\<lparr>availability := drop 1 (availability d),
              rows := rows d @
                [\<lparr>pk = Some (next_pk d), password = map_option H pw,
                  email = normalize_email e, name = nm,
                  is_active = True, is_staff = False, is_superuser = False\<rparr>],
              next_pk := Suc (next_pk d)\<rparr>)"
      using create_user_ok [of e d H nm pw] by simp
    have fresh: "\<not> list_ex (\<lambda>r. email r = normalize_email e) (rows d)"
      using h by (simp add: list_ex_email)
    then have fresh': "\<not> list_ex (\<lambda>r. pk r \<noteq> Some (next_pk d) \<and> email r = normalize_email e) (rows d)"
      by (auto simp: list_ex_iff)
    from up2 have up2': "storage_up (d\<lparr>availability := drop 1 (availability d),
              rows := rs, next_pk := k\<rparr>)" for rs k
      by (simp add: storage_up_def)
    show ?thesis
      unfolding create_superuser_def cu
      using fresh' up2' by (simp add: save_def Let_def)
  qed
  from A B show ?thesis by blast
qed

text \<open>The creation of a superuser on an empty database.\<close>

theorem create_superuser_flags_witness:
  "(create_superuser sample_hasher (Some ''Root@EXAMPLE.org'') ''Root'' (Some ''secret'')
       \<lparr>rows = [], next_pk = 1, availability = []\<rparr> =
     (Inr \<lparr>pk = Some 1, password = Some ''sample$terces'', email = ''Root@example.org'', name = ''Root'',
        is_active = True, is_staff = True, is_superuser = True\<rparr>,
      \<lparr>rows = [\<lparr>pk = Some 1, password = Some ''sample$terces'', email = ''Root@example.org'', name = ''Root'',
        is_active = True, is_staff = True, is_superuser = True\<rparr>], next_pk = 2, availability = []\<rparr>)) \<and>
   (is_staff \<lparr>pk = Some 1, password = Some ''sample$terces'', email = ''Root@example.org'', name = ''Root'',
        is_active = True, is_staff = True, is_superuser = True\<rparr> \<and>
    is_superuser \<lparr>pk = Some 1, password = Some ''sample$terces'', email = ''Root@example.org'', name = ''Root'',
        is_active = True, is_staff = True, is_superuser = True\<rparr> \<and>
    \<lparr>pk = Some 1, password = Some ''sample$terces'', email = ''Root@example.org'', name = ''Root'',
        is_active = True, is_staff = True, is_superuser = True\<rparr> \<in> set (rows \<lparr>rows = [\<lparr>pk = Some 1, password = Some ''sample$terces'', email = ''Root@example.org'', name = ''Root'',
        is_active = True, is_staff = True, is_superuser = True\<rparr>], next_pk = 2, availability = []\<rparr>) \<and>
    (\<exists>u0 d1. create_user sample_hasher (Some ''Root@EXAMPLE.org'') ''Root'' (Some ''secret'')
       \<lparr>rows = [], next_pk = 1, availability = []\<rparr> = (Inr u0, d1) \<and>
       \<lparr>pk = Some 1, password = Some ''sample$terces'', email = ''Root@example.org'', name = ''Root'',
        is_active = True, is_staff = True, is_superuser = True\<rparr> = u0\<lparr>is_superuser := True, is_staff := True\<rparr> \<and>
       save (u0\<lparr>is_superuser := True, is_staff := True\<rparr>) d1 =
         (Inr \<lparr>pk = Some 1, password = Some ''sample$terces'', email = ''Root@example.org'', name = ''Root'',
        is_active = True, is_staff = True, is_superuser = True\<rparr>,
          \<lparr>rows = [\<lparr>pk = Some 1, password = Some ''sample$terces'', email = ''Root@example.org'', name = ''Root'',
        is_active = True, is_staff = True, is_superuser = True\<rparr>], next_pk = 2, availability = []\<rparr>) \<and>
       u0 \<notin> set (rows \<lparr>rows = [\<lparr>pk = Some 1, password = Some ''sample$terces'', email = ''Root@example.org'', name = ''Root'',
        is_active = True, is_staff = True, is_superuser = True\<rparr>], next_pk = 2, availability = []\<rparr>))) \<and>
   (Some ''Root@EXAMPLE.org'' = Some ''Root@EXAMPLE.org'' \<and> ''Root@EXAMPLE.org'' \<noteq> [] \<and>
    normalize_email ''Root@EXAMPLE.org'' \<notin> email ` set (rows \<lparr>rows = [], next_pk = 1, availability = []\<rparr>) \<and>
    list_all (\<lambda>b. b) (take 2 (availability \<lparr>rows = [], next_pk = 1, availability = []\<rparr>))) \<and>
   (\<exists>u d'. create_superuser sample_hasher (Some ''Root@EXAMPLE.org'') ''Root'' (Some ''secret'')
       \<lparr>rows = [], next_pk = 1, availability = []\<rparr> = (Inr u, d'))"
proof -
  have run: "create_superuser sample_hasher (Some ''Root@EXAMPLE.org'') ''Root'' (Some ''secret'')
       \<lparr>rows = [], next_pk = 1, availability = []\<rparr> =
     (Inr \<lparr>pk = Some 1, password = Some ''sample$terces'', email = ''Root@example.org'', name = ''Root'',
        is_active = True, is_staff = True, is_superuser = True\<rparr>,
      \<lparr>rows = [\<lparr>pk = Some 1, password = Some ''sample$terces'', email = ''Root@example.org'', name = ''Root'',
        is_active = True, is_staff = True, is_superuser = True\<rparr>], next_pk = 2, availability = []\<rparr>)"
    by code_simp
  have flags: "is_staff \<lparr>pk = Some 1, password = Some ''sample$terces'', email = ''Root@example.org'', name = ''Root'',
        is_active = True, is_staff = True, is_superuser = True\<rparr> \<and>
    is_superuser \<lparr>pk = Some 1, password = Some ''sample$terces'', email = ''Root@example.org'', name = ''Root'',
        is_active = True, is_staff = True, is_superuser = True\<rparr> \<and>
    \<lparr>pk = Some 1, password = Some ''sample$terces'', email = ''Root@example.org'', name = ''Root'',
        is_active = True, is_staff = True, is_superuser = True\<rparr> \<in> set (rows \<lparr>rows = [\<lparr>pk = Some 1, password = Some ''sample$terces'', email = ''Root@example.org'', name = ''Root'',
        is_active = True, is_staff = True, is_superuser = True\<rparr>], next_pk = 2, availability = []\<rparr>) \<and>
    (\<exists>u0 d1. create_user sample_hasher (Some ''Root@EXAMPLE.org'') ''Root'' (Some ''secret'')
       \<lparr>rows = [], next_pk = 1, availability = []\<rparr> = (Inr u0, d1) \<and>
       \<lparr>pk = Some 1, password = Some ''sample$terces'', email = ''Root@example.org'', name = ''Root'',
        is_active = True, is_staff = True, is_superuser = True\<rparr> = u0\<lparr>is_superuser := True, is_staff := True\<rparr> \<and>
       save (u0\<lparr>is_superuser := True, is_staff := True\<rparr>) d1 =
         (Inr \<lparr>pk = Some 1, password = Some ''sample$terces'', email = ''Root@example.org'', name = ''Root'',
        is_active = True, is_staff = True, is_superuser = True\<rparr>,
          \<lparr>rows = [\<lparr>pk = Some 1, password = Some ''sample$terces'', email = ''Root@example.org'', name = ''Root'',
        is_active = True, is_staff = True, is_superuser = True\<rparr>], next_pk = 2, availability = []\<rparr>) \<and>
       u0 \<notin> set (rows \<lparr>rows = [\<lparr>pk = Some 1, password = Some ''sample$terces'', email = ''Root@example.org'', name = ''Root'',
        is_active = True, is_staff = True, is_superuser = True\<rparr>], next_pk = 2, availability = []\<rparr>))"
    by (rule create_superuser_flags [THEN conjunct1, rule_format, OF run])
  have cond: "Some ''Root@EXAMPLE.org'' = Some ''Root@EXAMPLE.org'' \<and> ''Root@EXAMPLE.org'' \<noteq> [] \<and>
    normalize_email ''Root@EXAMPLE.org'' \<notin> email ` set (rows \<lparr>rows = [], next_pk = 1, availability = []\<rparr>) \<and>
    list_all (\<lambda>b. b) (take 2 (availability \<lparr>rows = [], next_pk = 1, availability = []\<rparr>))"
    by simp
  have ex: "\<exists>u d'. create_superuser sample_hasher (Some ''Root@EXAMPLE.org'') ''Root'' (Some ''secret'')
       \<lparr>rows = [], next_pk = 1, availability = []\<rparr> = (Inr u, d')"
    by (rule create_superuser_flags [THEN conjunct2, rule_format, OF cond])
  show ?thesis
    by (rule conjI [OF run conjI [OF flags conjI [OF cond ex]]])
qed

text \<open>
  C4. For a non-empty email, the record \<open>create_user\<close> saves and returns holds the
  normalized address: an address without \<open>@\<close> is stored as given, and an address
  \<open>loc@dmn\<close> (split at its last \<open>@\<close>) is stored with \<open>loc\<close> as given and \<open>dmn\<close>
  lower-cased, so that no upper-case ASCII letter remains in the domain segment.
\<close>

theorem create_user_normalizes_email:
  "(\<forall>u d'. create_user H (Some e) nm pw d = (Inr u, d') \<longrightarrow>
      u \<in> set (rows d') \<and> email u = normalize_email e \<and>
      (CHR ''@'' \<notin> set e \<longrightarrow> email u = e) \<and>
      (\<forall>loc dmn. e = loc @ ''@'' @ dmn \<and> CHR ''@'' \<notin> set dmn \<longrightarrow>
         email u = loc @ ''@'' @ lower dmn \<and>
         (\<forall>c \<in> set (lower dmn). \<not> (65 \<le> (of_char c :: nat) \<and> (of_char c :: nat) \<le> 90)))) \<and>
   (e \<noteq> [] \<and> storage_up d \<and> normalize_email e \<notin> email ` set (rows d) \<longrightarrow>
      (\<exists>u d'. create_user H (Some e) nm pw d = (Inr u, d')))"
proof -
  have A: "u \<in> set (rows d') \<and> email u = normalize_email e \<and>
      (CHR ''@'' \<notin> set e \<longrightarrow> email u = e) \<and>
      (\<forall>loc dmn. e = loc @ ''@'' @ dmn \<and> CHR ''@'' \<notin> set dmn \<longrightarrow>
         email u = loc @ ''@'' @ lower dmn \<and>
         (\<forall>c \<in> set (lower dmn). \<not> (65 \<le> (of_char c :: nat) \<and> (of_char c :: nat) \<le> 90)))"
    if run: "create_user H (Some e) nm pw d = (Inr u, d')" for u d'
  proof -
    from create_user_Inr [OF run]
    have mem: "u \<in> set (rows d')" and em: "email u = normalize_email e" by auto
    have low: "\<forall>c \<in> set (lower dmn). \<not> (65 \<le> (of_char c :: nat) \<and> (of_char c :: nat) \<le> 90)" for dmn
      using lower_char_not_upper by (auto simp: lower_def)
    from mem em low show ?thesis
      using normalize_email_no_at [of e] normalize_email_split by auto
  qed
  have B: "\<exists>u d'. create_user H (Some e) nm pw d = (Inr u, d')"
    if "e \<noteq> [] \<and> storage_up d \<and> normalize_email e \<notin> email ` set (rows d)"
    using that create_user_ok [of e d H nm pw] by blast
  from A B show ?thesis by blast
qed

text \<open>An address with an upper-case domain, and one without \<open>@\<close>.\<close>

theorem create_user_normalizes_email_witness:
  "(create_user sample_hasher (Some ''Bob@EXAMPLE.Com'') ''Bob'' (Some ''secret'')
       \<lparr>rows = [], next_pk = 1, availability = []\<rparr> =
     (Inr \<lparr>pk = Some 1, password = Some ''sample$terces'', email = ''Bob@example.com'', name = ''Bob'',
        is_active = True, is_staff = False, is_superuser = False\<rparr>,
      \<lparr>rows = [\<lparr>pk = Some 1, password = Some ''sample$terces'', email = ''Bob@example.com'', name = ''Bob'',
        is_active = True, is_staff = False, is_superuser = False\<rparr>], next_pk = 2, availability = []\<rparr>)) \<and>
   (\<lparr>pk = Some 1, password = Some ''sample$terces'', email = ''Bob@example.com'', name = ''Bob'',
        is_active = True, is_staff = False, is_superuser = False\<rparr> \<in> set (rows \<lparr>rows = [\<lparr>pk = Some 1, password = Some ''sample$terces'', email = ''Bob@example.com'', name = ''Bob'',
        is_active = True, is_staff = False, is_superuser = False\<rparr>], next_pk = 2, availability = []\<rparr>)) \<and>
   (email \<lparr>pk = Some 1, password = Some ''sample$terces'', email = ''Bob@example.com'', name = ''Bob'',
        is_active = True, is_staff = False, is_superuser = False\<rparr> =
      normalize_email ''Bob@EXAMPLE.Com'') \<and>
   (''Bob@EXAMPLE.Com'' = ''Bob'' @ ''@'' @ ''EXAMPLE.Com'' \<and> CHR ''@'' \<notin> set ''EXAMPLE.Com'') \<and>
   (email \<lparr>pk = Some 1, password = Some ''sample$terces'', email = ''Bob@example.com'', name = ''Bob'',
        is_active = True, is_staff = False, is_superuser = False\<rparr> =
      ''Bob'' @ ''@'' @ lower ''EXAMPLE.Com'') \<and>
   (create_user sample_hasher (Some ''no-at-sign'') ''Bob'' (Some ''secret'')
       \<lparr>rows = [], next_pk = 1, availability = []\<rparr> =
     (Inr \<lparr>pk = Some 1, password = Some ''sample$terces'', email = ''no-at-sign'', name = ''Bob'',
        is_active = True, is_staff = False, is_superuser = False\<rparr>,
      \<lparr>rows = [\<lparr>pk = Some 1, password = Some ''sample$terces'', email = ''no-at-sign'', name = ''Bob'',
        is_active = True, is_staff = False, is_superuser = False\<rparr>], next_pk = 2, availability = []\<rparr>)) \<and>
   (CHR ''@'' \<notin> set ''no-at-sign'') \<and>
   (email \<lparr>pk = Some 1, password = Some ''sample$terces'', email = ''no-at-sign'', name = ''Bob'',
        is_active = True, is_staff = False, is_superuser = False\<rparr> =
      ''no-at-sign'') \<and>
   (''Bob@EXAMPLE.Com'' \<noteq> [] \<and>
    storage_up \<lparr>rows = [], next_pk = 1, availability = []\<rparr> \<and>
    normalize_email ''Bob@EXAMPLE.Com'' \<notin> email ` set (rows \<lparr>rows = [], next_pk = 1, availability = []\<rparr>)) \<and>
   (\<exists>u d'. create_user sample_hasher (Some ''Bob@EXAMPLE.Com'') ''Bob'' (Some ''secret'')
       \<lparr>rows = [], next_pk = 1, availability = []\<rparr> = (Inr u, d'))"
proof -
  have run: "create_user sample_hasher (Some ''Bob@EXAMPLE.Com'') ''Bob'' (Some ''secret'')
       \<lparr>rows = [], next_pk = 1, availability = []\<rparr> =
     (Inr \<lparr>pk = Some 1, password = Some ''sample$terces'', email = ''Bob@example.com'', name = ''Bob'',
        is_active = True, is_staff = False, is_superuser = False\<rparr>,
      \<lparr>rows = [\<lparr>pk = Some 1, password = Some ''sample$terces'', email = ''Bob@example.com'', name = ''Bob'',
        is_active = True, is_staff = False, is_superuser = False\<rparr>], next_pk = 2, availability = []\<rparr>)"
    by code_simp
  have stored: "\<lparr>pk = Some 1, password = Some ''sample$terces'', email = ''Bob@example.com'', name = ''Bob'',
        is_active = True, is_staff = False, is_superuser = False\<rparr> \<in> set (rows \<lparr>rows = [\<lparr>pk = Some 1, password = Some ''sample$terces'', email = ''Bob@example.com'', name = ''Bob'',
        is_active = True, is_staff = False, is_superuser = False\<rparr>], next_pk = 2, availability = []\<rparr>)"
    by (rule create_user_normalizes_email [THEN conjunct1, rule_format, OF run, THEN conjunct1])
  have norm: "email \<lparr>pk = Some 1, password = Some ''sample$terces'', email = ''Bob@example.com'', name = ''Bob'',
        is_active = True, is_staff = False, is_superuser = False\<rparr> =
      normalize_email ''Bob@EXAMPLE.Com''"
    by (rule create_user_normalizes_email [THEN conjunct1, rule_format, OF run, THEN conjunct2, THEN conjunct1])
  have split: "''Bob@EXAMPLE.Com'' = ''Bob'' @ ''@'' @ ''EXAMPLE.Com'' \<and> CHR ''@'' \<notin> set ''EXAMPLE.Com''"
    by simp
  have folded: "email \<lparr>pk = Some 1, password = Some ''sample$terces'', email = ''Bob@example.com'', name = ''Bob'',
        is_active = True, is_staff = False, is_superuser = False\<rparr> =
      ''Bob'' @ ''@'' @ lower ''EXAMPLE.Com''"
    by (rule create_user_normalizes_email [THEN conjunct1, rule_format, OF run, THEN conjunct2, THEN conjunct2,
          THEN conjunct2, rule_format, OF split, THEN conjunct1])
  have runn: "create_user sample_hasher (Some ''no-at-sign'') ''Bob'' (Some ''secret'')
       \<lparr>rows = [], next_pk = 1, availability = []\<rparr> =
     (Inr \<lparr>pk = Some 1, password = Some ''sample$terces'', email = ''no-at-sign'', name = ''Bob'',
        is_active = True, is_staff = False, is_superuser = False\<rparr>,
      \<lparr>rows = [\<lparr>pk = Some 1, password = Some ''sample$terces'', email = ''no-at-sign'', name = ''Bob'',
        is_active = True, is_staff = False, is_superuser = False\<rparr>], next_pk = 2, availability = []\<rparr>)"
    by code_simp
  have noat: "CHR ''@'' \<notin> set ''no-at-sign''"
    by simp
  have kept: "email \<lparr>pk = Some 1, password = Some ''sample$terces'', email = ''no-at-sign'', name = ''Bob'',
        is_active = True, is_staff = False, is_superuser = False\<rparr> =
      ''no-at-sign''"
    by (rule create_user_normalizes_email [THEN conjunct1, rule_format, OF runn, THEN conjunct2, THEN conjunct2,
          THEN conjunct1, rule_format, OF noat])
  have cond: "''Bob@EXAMPLE.Com'' \<noteq> [] \<and>
    storage_up \<lparr>rows = [], next_pk = 1, availability = []\<rparr> \<and>
    normalize_email ''Bob@EXAMPLE.Com'' \<notin> email ` set (rows \<lparr>rows = [], next_pk = 1, availability = []\<rparr>)"
    by (simp add: storage_up_def)
  have ex: "\<exists>u d'. create_user sample_hasher (Some ''Bob@EXAMPLE.Com'') ''Bob'' (Some ''secret'')
       \<lparr>rows = [], next_pk = 1, availability = []\<rparr> = (Inr u, d')"
    by (rule create_user_normalizes_email [THEN conjunct2, rule_format, OF cond])
  show ?thesis
    by (rule conjI [OF run conjI [OF stored conjI [OF norm conjI [OF split conjI [OF folded conjI [OF runn conjI [OF noat conjI [OF kept conjI [OF cond ex]]]]]]]]])
qed

text \<open>
  C5 (as the code has it). \<open>create_user\<close> is atomic: a failure leaves the table
  and the key counter as they were, and a success appends exactly the returned
  record. A failed \<open>create_superuser\<close> either is the failure of its call to
  \<open>create_user\<close>, with the table unchanged, or it is the failure of the second
  save, and then the table holds the record that \<open>create_user\<close> wrote, without
  the two flags.
\<close>

theorem creation_failure_effects:
  "(\<forall>err d'. create_user H addr nm pw d = (Inl err, d') \<longrightarrow>
      rows d' = rows d \<and> next_pk d' = next_pk d) \<and>
   (\<forall>u d'. create_user H addr nm pw d = (Inr u, d') \<longrightarrow> rows d' = rows d @ [u]) \<and>
   (\<forall>err d'. create_superuser H addr nm pw d = (Inl err, d') \<longrightarrow>
      (\<exists>d1. create_user H addr nm pw d = (Inl err, d1) \<and> d' = d1 \<and> rows d' = rows d)
      \<or> (\<exists>u0 d1. create_user H addr nm pw d = (Inr u0, d1) \<and>
            save (u0\<lparr>is_superuser := True, is_staff := True\<rparr>) d1 = (Inl err, d') \<and>
            rows d' = rows d @ [u0] \<and> \<not> is_staff u0 \<and> \<not> is_superuser u0))"
proof -
  have A: "rows d' = rows d \<and> next_pk d' = next_pk d"
    if "create_user H addr nm pw d = (Inl err, d')" for err d'
    using create_user_Inl [OF that] by simp
  have B: "rows d' = rows d @ [u]"
    if "create_user H addr nm pw d = (Inr u, d')" for u d'
    using create_user_Inr [OF that] by auto
  have C: "(\<exists>d1. create_user H addr nm pw d = (Inl err, d1) \<and> d' = d1 \<and> rows d' = rows d)
      \<or> (\<exists>u0 d1. create_user H addr nm pw d = (Inr u0, d1) \<and>
            save (u0\<lparr>is_superuser := True, is_staff := True\<rparr>) d1 = (Inl err, d') \<and>
            rows d' = rows d @ [u0] \<and> \<not> is_staff u0 \<and> \<not> is_superuser u0)"
    if run: "create_superuser H addr nm pw d = (Inl err, d')" for err d'
  proof -
    obtain r0 d1 where cu: "create_user H addr nm pw d = (r0, d1)"
      by (cases "create_user H addr nm pw d")
    show ?thesis
    proof (cases r0)
      case (Inl e0)
      with run cu have "e0 = err" and "d1 = d'" by (simp_all add: create_superuser_def)
      with cu Inl A show ?thesis by auto
    next
      case (Inr u0)
      with run cu have sv: "save (u0\<lparr>is_superuser := True, is_staff := True\<rparr>) d1 = (Inl err, d')"
        by (simp add: create_superuser_def)
      from save_Inl [OF sv] have "rows d' = rows d1" by simp
      moreover from create_user_Inr [OF cu [unfolded Inr]]
      have "rows d1 = rows d @ [u0]" and "\<not> is_staff u0" and "\<not> is_superuser u0" by auto
      ultimately show ?thesis using cu Inr sv by auto
    qed
  qed
  from A B C show ?thesis by blast
qed

text \<open>
  An unreachable storage at the first write of \<open>create_user\<close>, a successful
  \<open>create_user\<close>, and a \<open>create_superuser\<close> whose second write fails.
\<close>

theorem creation_failure_effects_witness:
  "(create_user sample_hasher (Some ''root@example.org'') ''Root'' (Some ''secret'')
       \<lparr>rows = [], next_pk = 1, availability = [False]\<rparr> =
     (Inl OperationalError,
      \<lparr>rows = [], next_pk = 1, availability = []\<rparr>)) \<and>
   (rows \<lparr>rows = [], next_pk = 1, availability = []\<rparr> = rows \<lparr>rows = [], next_pk = 1, availability = [False]\<rparr> \<and>
    next_pk \<lparr>rows = [], next_pk = 1, availability = []\<rparr> = next_pk \<lparr>rows = [], next_pk = 1, availability = [False]\<rparr>) \<and>
   (create_user sample_hasher (Some ''root@example.org'') ''Root'' (Some ''secret'')
       \<lparr>rows = [], next_pk = 1, availability = []\<rparr> =
     (Inr \<lparr>pk = Some 1, password = Some ''sample$terces'', email = ''root@example.org'', name = ''Root'',
        is_active = True, is_staff = False, is_superuser = False\<rparr>,
      \<lparr>rows = [\<lparr>pk = Some 1, password = Some ''sample$terces'', email = ''root@example.org'', name = ''Root'',
        is_active = True, is_staff = False, is_superuser = False\<rparr>], next_pk = 2, availability = []\<rparr>)) \<and>
   (rows \<lparr>rows = [\<lparr>pk = Some 1, password = Some ''sample$terces'', email = ''root@example.org'', name = ''Root'',
        is_active = True, is_staff = False, is_superuser = False\<rparr>], next_pk = 2, availability = []\<rparr> =
      rows \<lparr>rows = [], next_pk = 1, availability = []\<rparr> @ [\<lparr>pk = Some 1, password = Some ''sample$terces'', email = ''root@example.org'', name = ''Root'',
        is_active = True, is_staff = False, is_superuser = False\<rparr>]) \<and>
   (create_superuser sample_hasher (Some ''root@example.org'') ''Root'' (Some ''secret'')
       \<lparr>rows = [], next_pk = 1, availability = [True, False]\<rparr> =
     (Inl OperationalError,
      \<lparr>rows = [\<lparr>pk = Some 1, password = Some ''sample$terces'', email = ''root@example.org'', name = ''Root'',
        is_active = True, is_staff = False, is_superuser = False\<rparr>], next_pk = 2, availability = []\<rparr>)) \<and>
   ((\<exists>d1. create_user sample_hasher (Some ''root@example.org'') ''Root'' (Some ''secret'')
       \<lparr>rows = [], next_pk = 1, availability = [True, False]\<rparr> = (Inl OperationalError, d1) \<and>
       \<lparr>rows = [\<lparr>pk = Some 1, password = Some ''sample$terces'', email = ''root@example.org'', name = ''Root'',
        is_active = True, is_staff = False, is_superuser = False\<rparr>], next_pk = 2, availability = []\<rparr> = d1 \<and>
       rows \<lparr>rows = [\<lparr>pk = Some 1, password = Some ''sample$terces'', email = ''root@example.org'', name = ''Root'',
        is_active = True, is_staff = False, is_superuser = False\<rparr>], next_pk = 2, availability = []\<rparr> = rows \<lparr>rows = [], next_pk = 1, availability = [True, False]\<rparr>)
    \<or> (\<exists>u0 d1. create_user sample_hasher (Some ''root@example.org'') ''Root'' (Some ''secret'')
       \<lparr>rows = [], next_pk = 1, availability = [True, False]\<rparr> = (Inr u0, d1) \<and>
       save (u0\<lparr>is_superuser := True, is_staff := True\<rparr>) d1 =
         (Inl OperationalError,
          \<lparr>rows = [\<lparr>pk = Some 1, password = Some ''sample$terces'', email = ''root@example.org'', name = ''Root'',
        is_active = True, is_staff = False, is_superuser = False\<rparr>], next_pk = 2, availability = []\<rparr>) \<and>
       rows \<lparr>rows = [\<lparr>pk = Some 1, password = Some ''sample$terces'', email = ''root@example.org'', name = ''Root'',
        is_active = True, is_staff = False, is_superuser = False\<rparr>], next_pk = 2, availability = []\<rparr> = rows \<lparr>rows = [], next_pk = 1, availability = [True, False]\<rparr> @ [u0] \<and>
       \<not> is_staff u0 \<and> \<not> is_superuser u0))"
proof -
  have run1: "create_user sample_hasher (Some ''root@example.org'') ''Root'' (Some ''secret'')
       \<lparr>rows = [], next_pk = 1, availability = [False]\<rparr> =
     (Inl OperationalError,
      \<lparr>rows = [], next_pk = 1, availability = []\<rparr>)"
    by code_simp
  have c1: "rows \<lparr>rows = [], next_pk = 1, availability = []\<rparr> = rows \<lparr>rows = [], next_pk = 1, availability = [False]\<rparr> \<and>
    next_pk \<lparr>rows = [], next_pk = 1, availability = []\<rparr> = next_pk \<lparr>rows = [], next_pk = 1, availability = [False]\<rparr>"
    by (rule creation_failure_effects [THEN conjunct1, rule_format, OF run1])
  have run2: "create_user sample_hasher (Some ''root@example.org'') ''Root'' (Some ''secret'')
       \<lparr>rows = [], next_pk = 1, availability = []\<rparr> =
     (Inr \<lparr>pk = Some 1, password = Some ''sample$terces'', email = ''root@example.org'', name = ''Root'',
        is_active = True, is_staff = False, is_superuser = False\<rparr>,
      \<lparr>rows = [\<lparr>pk = Some 1, password = Some ''sample$terces'', email = ''root@example.org'', name = ''Root'',
        is_active = True, is_staff = False, is_superuser = False\<rparr>], next_pk = 2, availability = []\<rparr>)"
    by code_simp
  have c2: "rows \<lparr>rows = [\<lparr>pk = Some 1, password = Some ''sample$terces'', email = ''root@example.org'', name = ''Root'',
        is_active = True, is_staff = False, is_superuser = False\<rparr>], next_pk = 2, availability = []\<rparr> =
      rows \<lparr>rows = [], next_pk = 1, availability = []\<rparr> @ [\<lparr>pk = Some 1, password = Some ''sample$terces'', email = ''root@example.org'', name = ''Root'',
        is_active = True, is_staff = False, is_superuser = False\<rparr>]"
    by (rule creation_failure_effects [THEN conjunct2, THEN conjunct1, rule_format, OF run2])
  have run3: "create_superuser sample_hasher (Some ''root@example.org'') ''Root'' (Some ''secret'')
       \<lparr>rows = [], next_pk = 1, availability = [True, False]\<rparr> =
     (Inl OperationalError,
      \<lparr>rows = [\<lparr>pk = Some 1, password = Some ''sample$terces'', email = ''root@example.org'', name = ''Root'',
        is_active = True, is_staff = False, is_superuser = False\<rparr>], next_pk = 2, availability = []\<rparr>)"
    by code_simp
  have c3: "(\<exists>d1. create_user sample_hasher (Some ''root@example.org'') ''Root'' (Some ''secret'')
       \<lparr>rows = [], next_pk = 1, availability = [True, False]\<rparr> = (Inl OperationalError, d1) \<and>
       \<lparr>rows = [\<lparr>pk = Some 1, password = Some ''sample$terces'', email = ''root@example.org'', name = ''Root'',
        is_active = True, is_staff = False, is_superuser = False\<rparr>], next_pk = 2, availability = []\<rparr> = d1 \<and>
       rows \<lparr>rows = [\<lparr>pk = Some 1, password = Some ''sample$terces'', email = ''root@example.org'', name = ''Root'',
        is_active = True, is_staff = False, is_superuser = False\<rparr>], next_pk = 2, availability = []\<rparr> = rows \<lparr>rows = [], next_pk = 1, availability = [True, False]\<rparr>)
    \<or> (\<exists>u0 d1. create_user sample_hasher (Some ''root@example.org'') ''Root'' (Some ''secret'')
       \<lparr>rows = [], next_pk = 1, availability = [True, False]\<rparr> = (Inr u0, d1) \<and>
       save (u0\<lparr>is_superuser := True, is_staff := True\<rparr>) d1 =
         (Inl OperationalError,
          \<lparr>rows = [\<lparr>pk = Some 1, password = Some ''sample$terces'', email = ''root@example.org'', name = ''Root'',
        is_active = True, is_staff = False, is_superuser = False\<rparr>], next_pk = 2, availability = []\<rparr>) \<and>
       rows \<lparr>rows = [\<lparr>pk = Some 1, password = Some ''sample$terces'', email = ''root@example.org'', name = ''Root'',
        is_active = True, is_staff = False, is_superuser = False\<rparr>], next_pk = 2, availability = []\<rparr> = rows \<lparr>rows = [], next_pk = 1, availability = [True, False]\<rparr> @ [u0] \<and>
       \<not> is_staff u0 \<and> \<not> is_superuser u0)"
    by (rule creation_failure_effects [THEN conjunct2, THEN conjunct2, rule_format, OF run3])
  show ?thesis
    by (rule conjI [OF run1 conjI [OF c1 conjI [OF run2 conjI [OF c2 conjI [OF run3 c3]]]]])
qed

text \<open>
  C5 as stated says that a failed creation leaves nothing saved. When the storage
  is reachable for the save on line 34 and not for the save on line 54,
  \<open>create_superuser\<close> fails and the record without the two flags stays saved.
\<close>

theorem superuser_creation_not_atomic:
  "fst (create_superuser sample_hasher (Some ''root@example.org'') ''Root'' (Some ''secret'')
       \<lparr>rows = [], next_pk = 1, availability = [True, False]\<rparr>) =
     Inl OperationalError \<and>
   rows (snd (create_superuser sample_hasher (Some ''root@example.org'') ''Root'' (Some ''secret'')
       \<lparr>rows = [], next_pk = 1, availability = [True, False]\<rparr>)) =
     [\<lparr>pk = Some 1, password = Some ''sample$terces'', email = ''root@example.org'', name = ''Root'',
        is_active = True, is_staff = False, is_superuser = False\<rparr>]"
  by code_simp

text \<open>
  C7. When \<open>create_user\<close> is called without a password and returns a record, the
  record is saved, it has no usable credential, and no password authenticates
  it; and the call does return a record whenever the address is non-empty and
  new and the storage is reachable.
\<close>

theorem create_user_without_password:
  "(\<forall>u d'. create_user H addr nm None d = (Inr u, d') \<longrightarrow>
      u \<in> set (rows d') \<and> password u = None \<and> \<not> has_usable_password u \<and>
      (\<forall>V raw. \<not> check_password V raw u)) \<and>
   (\<forall>e. addr = Some e \<and> e \<noteq> [] \<and> storage_up d \<and>
        normalize_email e \<notin> email ` set (rows d) \<longrightarrow>
      (\<exists>u d'. create_user H addr nm None d = (Inr u, d')))"
proof -
  have A: "u \<in> set (rows d') \<and> password u = None \<and> \<not> has_usable_password u \<and>
      (\<forall>V raw. \<not> check_password V raw u)"
    if "create_user H addr nm None d = (Inr u, d')" for u d'
    using create_user_Inr [OF that]
    by (auto simp: has_usable_password_def check_password_def)
  have B: "\<exists>u d'. create_user H addr nm None d = (Inr u, d')"
    if "addr = Some e \<and> e \<noteq> [] \<and> storage_up d \<and>
        normalize_email e \<notin> email ` set (rows d)" for e
    using that create_user_ok [of e d H nm None] by blast
  from A B show ?thesis by blast
qed

text \<open>A creation without password on an empty database.\<close>

theorem create_user_without_password_witness:
  "(create_user sample_hasher (Some ''bob@example.com'') ''Bob'' None
       \<lparr>rows = [], next_pk = 1, availability = []\<rparr> =
     (Inr \<lparr>pk = Some 1, password = None, email = ''bob@example.com'', name = ''Bob'',
        is_active = True, is_staff = False, is_superuser = False\<rparr>,
      \<lparr>rows = [\<lparr>pk = Some 1, password = None, email = ''bob@example.com'', name = ''Bob'',
        is_active = True, is_staff = False, is_superuser = False\<rparr>], next_pk = 2, availability = []\<rparr>)) \<and>
   (\<lparr>pk = Some 1, password = None, email = ''bob@example.com'', name = ''Bob'',
        is_active = True, is_staff = False, is_superuser = False\<rparr> \<in> set (rows \<lparr>rows = [\<lparr>pk = Some 1, password = None, email = ''bob@example.com'', name = ''Bob'',
        is_active = True, is_staff = False, is_superuser = False\<rparr>], next_pk = 2, availability = []\<rparr>) \<and>
    password \<lparr>pk = Some 1, password = None, email = ''bob@example.com'', name = ''Bob'',
        is_active = True, is_staff = False, is_superuser = False\<rparr> = None \<and>
    \<not> has_usable_password \<lparr>pk = Some 1, password = None, email = ''bob@example.com'', name = ''Bob'',
        is_active = True, is_staff = False, is_superuser = False\<rparr> \<and>
    (\<forall>V raw. \<not> check_password V raw \<lparr>pk = Some 1, password = None, email = ''bob@example.com'', name = ''Bob'',
        is_active = True, is_staff = False, is_superuser = False\<rparr>)) \<and>
   (Some ''bob@example.com'' = Some ''bob@example.com'' \<and> ''bob@example.com'' \<noteq> [] \<and>
    storage_up \<lparr>rows = [], next_pk = 1, availability = []\<rparr> \<and>
    normalize_email ''bob@example.com'' \<notin> email ` set (rows \<lparr>rows = [], next_pk = 1, availability = []\<rparr>)) \<and>
   (\<exists>u d'. create_user sample_hasher (Some ''bob@example.com'') ''Bob'' None
       \<lparr>rows = [], next_pk = 1, availability = []\<rparr> = (Inr u, d'))"
proof -
  have run: "create_user sample_hasher (Some ''bob@example.com'') ''Bob'' None
       \<lparr>rows = [], next_pk = 1, availability = []\<rparr> =
     (Inr \<lparr>pk = Some 1, password = None, email = ''bob@example.com'', name = ''Bob'',
        is_active = True, is_staff = False, is_superuser = False\<rparr>,
      \<lparr>rows = [\<lparr>pk = Some 1, password = None, email = ''bob@example.com'', name = ''Bob'',
        is_active = True, is_staff = False, is_superuser = False\<rparr>], next_pk = 2, availability = []\<rparr>)"
    by code_simp
  have unusable: "\<lparr>pk = Some 1, password = None, email = ''bob@example.com'', name = ''Bob'',
        is_active = True, is_staff = False, is_superuser = False\<rparr> \<in> set (rows \<lparr>rows = [\<lparr>pk = Some 1, password = None, email = ''bob@example.com'', name = ''Bob'',
        is_active = True, is_staff = False, is_superuser = False\<rparr>], next_pk = 2, availability = []\<rparr>) \<and>
    password \<lparr>pk = Some 1, password = None, email = ''bob@example.com'', name = ''Bob'',
        is_active = True, is_staff = False, is_superuser = False\<rparr> = None \<and>
    \<not> has_usable_password \<lparr>pk = Some 1, password = None, email = ''bob@example.com'', name = ''Bob'',
        is_active = True, is_staff = False, is_superuser = False\<rparr> \<and>
    (\<forall>V raw. \<not> check_password V raw \<lparr>pk = Some 1, password = None, email = ''bob@example.com'', name = ''Bob'',
        is_active = True, is_staff = False, is_superuser = False\<rparr>)"
    by (rule create_user_without_password [THEN conjunct1, rule_format, OF run])
  have cond: "Some ''bob@example.com'' = Some ''bob@example.com'' \<and> ''bob@example.com'' \<noteq> [] \<and>
    storage_up \<lparr>rows = [], next_pk = 1, availability = []\<rparr> \<and>
    normalize_email ''bob@example.com'' \<notin> email ` set (rows \<lparr>rows = [], next_pk = 1, availability = []\<rparr>)"
    by (simp add: storage_up_def)
  have ex: "\<exists>u d'. create_user sample_hasher (Some ''bob@example.com'') ''Bob'' None
       \<lparr>rows = [], next_pk = 1, availability = []\<rparr> = (Inr u, d')"
    by (rule create_user_without_password [THEN conjunct2, rule_format, OF cond])
  show ?thesis
    by (rule conjI [OF run conjI [OF unusable conjI [OF cond ex]]])
qed

text \<open>
  C8. For every record, \<open>get_full_name\<close> and \<open>get_short_name\<close> both return exactly
  the stored name, and both leave the record as it was.
\<close>

theorem accessors_return_name:
  "get_full_name u = (name u, u) \<and> get_short_name u = (name u, u)"
  by (simp add: get_full_name_def get_short_name_def)

text \<open>
  C9. For every record, the string representation equals its email field.
\<close>

theorem str_is_email:
  "fst (str_UserProfile u) = email u"
  by (simp add: str_UserProfile_def)

text \<open>
  C10. \<open>create_user\<close> raises its \<open>ValueError\<close> exactly when the email is absent or
  empty. For every other email it is the save of the record built from the
  arguments, with no further check of the address, the name or the password; so
  whenever the storage accepts the record, the call fails if and only if the
  email is empty.
\<close>

theorem create_user_only_checks_email:
  "((\<exists>msg d'. create_user H addr nm pw d = (Inl (ValueError msg), d')) \<longleftrightarrow>
      (addr = None \<or> addr = Some [])) \<and>
   (\<forall>e. addr = Some e \<and> e \<noteq> [] \<longrightarrow>
      create_user H addr nm pw d =
        save (set_password H pw (model (normalize_email e) nm)) d) \<and>
   (\<forall>e. addr = Some e \<and> storage_up d \<and> normalize_email e \<notin> email ` set (rows d) \<longrightarrow>
      (isl (fst (create_user H addr nm pw d)) \<longleftrightarrow> e = []))"
proof -
  have A: "(\<exists>msg d'. create_user H addr nm pw d = (Inl (ValueError msg), d')) \<longleftrightarrow>
      (addr = None \<or> addr = Some [])"
  proof
    assume "\<exists>msg d'. create_user H addr nm pw d = (Inl (ValueError msg), d')"
    then obtain msg d' where "create_user H addr nm pw d = (Inl (ValueError msg), d')" by blast
    from create_user_Inl [OF this] show "addr = None \<or> addr = Some []" by auto
  next
    assume "addr = None \<or> addr = Some []"
    then show "\<exists>msg d'. create_user H addr nm pw d = (Inl (ValueError msg), d')"
      by (auto simp: create_user_def)
  qed
  have B: "create_user H addr nm pw d =
        save (set_password H pw (model (normalize_email e) nm)) d"
    if "addr = Some e \<and> e \<noteq> []" for e
    using that by (simp add: create_user_def Let_def)
  have C: "isl (fst (create_user H addr nm pw d)) \<longleftrightarrow> e = []"
    if h: "addr = Some e \<and> storage_up d \<and> normalize_email e \<notin> email ` set (rows d)" for e
  proof (cases "e = []")
    case True
    with h show ?thesis by (simp add: create_user_def)
  next
    case False
    with h create_user_ok [of e d H nm pw] show ?thesis by simp
  qed
  from A B C show ?thesis by blast
qed

text \<open>
  The empty address is rejected; an address without \<open>@\<close>, with an empty name and
  no password, is accepted.
\<close>

theorem create_user_only_checks_email_witness:
  "(Some [] = (None :: string option) \<or> Some [] = Some ([] :: string)) \<and>
   (\<exists>msg d'. create_user sample_hasher (Some []) '''' None
       \<lparr>rows = [], next_pk = 1, availability = []\<rparr> = (Inl (ValueError msg), d')) \<and>
   (Some ''no-at-sign'' = Some ''no-at-sign'' \<and> ''no-at-sign'' \<noteq> []) \<and>
   (create_user sample_hasher (Some ''no-at-sign'') '''' None
       \<lparr>rows = [], next_pk = 1, availability = []\<rparr> =
     save (set_password sample_hasher None (model (normalize_email ''no-at-sign'') ''''))
       \<lparr>rows = [], next_pk = 1, availability = []\<rparr>) \<and>
   (Some ''no-at-sign'' = Some ''no-at-sign'' \<and>
    storage_up \<lparr>rows = [], next_pk = 1, availability = []\<rparr> \<and>
    normalize_email ''no-at-sign'' \<notin> email ` set (rows \<lparr>rows = [], next_pk = 1, availability = []\<rparr>)) \<and>
   (\<not> isl (fst (create_user sample_hasher (Some ''no-at-sign'') '''' None
       \<lparr>rows = [], next_pk = 1, availability = []\<rparr>))) \<and>
   (create_user sample_hasher (Some ''no-at-sign'') '''' None
       \<lparr>rows = [], next_pk = 1, availability = []\<rparr> =
     (Inr \<lparr>pk = Some 1, password = None, email = ''no-at-sign'', name = '''',
        is_active = True, is_staff = False, is_superuser = False\<rparr>,
      \<lparr>rows = [\<lparr>pk = Some 1, password = None, email = ''no-at-sign'', name = '''',
        is_active = True, is_staff = False, is_superuser = False\<rparr>], next_pk = 2, availability = []\<rparr>))"
proof -
  have h0: "Some [] = (None :: string option) \<or> Some [] = Some ([] :: string)"
    by simp
  have raised: "\<exists>msg d'. create_user sample_hasher (Some []) '''' None
       \<lparr>rows = [], next_pk = 1, availability = []\<rparr> = (Inl (ValueError msg), d')"
    by (rule create_user_only_checks_email [THEN conjunct1, THEN iffD2, OF h0])
  have cond2: "Some ''no-at-sign'' = Some ''no-at-sign'' \<and> ''no-at-sign'' \<noteq> []"
    by simp
  have delegates: "create_user sample_hasher (Some ''no-at-sign'') '''' None
       \<lparr>rows = [], next_pk = 1, availability = []\<rparr> =
     save (set_password sample_hasher None (model (normalize_email ''no-at-sign'') ''''))
       \<lparr>rows = [], next_pk = 1, availability = []\<rparr>"
    by (rule create_user_only_checks_email [THEN conjunct2, THEN conjunct1, rule_format, OF cond2])
  have cond3: "Some ''no-at-sign'' = Some ''no-at-sign'' \<and>
    storage_up \<lparr>rows = [], next_pk = 1, availability = []\<rparr> \<and>
    normalize_email ''no-at-sign'' \<notin> email ` set (rows \<lparr>rows = [], next_pk = 1, availability = []\<rparr>)"
    by (simp add: storage_up_def)
  have accepted: "\<not> isl (fst (create_user sample_hasher (Some ''no-at-sign'') '''' None
       \<lparr>rows = [], next_pk = 1, availability = []\<rparr>))"
    using create_user_only_checks_email [THEN conjunct2, THEN conjunct2, rule_format, OF cond3]
    by simp
  have run: "create_user sample_hasher (Some ''no-at-sign'') '''' None
       \<lparr>rows = [], next_pk = 1, availability = []\<rparr> =
     (Inr \<lparr>pk = Some 1, password = None, email = ''no-at-sign'', name = '''',
        is_active = True, is_staff = False, is_superuser = False\<rparr>,
      \<lparr>rows = [\<lparr>pk = Some 1, password = None, email = ''no-at-sign'', name = '''',
        is_active = True, is_staff = False, is_superuser = False\<rparr>], next_pk = 2, availability = []\<rparr>)"
    by code_simp
  show ?thesis
    by (rule conjI [OF h0 conjI [OF raised conjI [OF cond2 conjI [OF delegates conjI [OF cond3 conjI [OF accepted run]]]]]])
qed

end
